theory Spec2Isabelle
  imports Complex_Main
begin

section \<open>The gateway service of python-services/main.py\<close>

text \<open>
  The service owns one handle \<open>w3\<close> to a remote JSON-RPC node and exposes five handlers.
  A handler is modelled as a value of type \<open>'a py\<close>: the outcome of the Python function
  (an exception raised, or the value returned) together with the list of remote calls it
  issued, in order, each with the message of the exception it raised, if any.
\<close>

subsection \<open>Configuration\<close>

definition OVER_PROTOCOL_RPC :: string where
  "OVER_PROTOCOL_RPC = ''https://rpc.overprotocol.com''"

definition CHAIN_ID :: int where
  "CHAIN_ID = 54176"

subsection \<open>Exceptions, remote calls and the trace\<close>

text \<open>
  \<open>HTTPException status_code detail\<close> is FastAPI's exception; \<open>Error msg\<close> is any other
  subclass of \<open>Exception\<close>, \<open>msg\<close> being what \<open>str(e)\<close> gives for it.
\<close>

datatype exn = HTTPException nat string | Error string

datatype block_id = Latest | Number int

datatype rpc_call =
    Probe
  | BlockNumber
  | GasPrice
  | GetBalance string
  | GetBlock block_id
  | EstimateGas string string int

type_synonym event = "rpc_call \<times> string option"

type_synonym 'a py = "(exn + 'a) \<times> event list"

definition py_return :: "'a \<Rightarrow> 'a py" where
  "py_return v = (Inr v, [])"

definition py_raise :: "exn \<Rightarrow> 'a py" where
  "py_raise e = (Inl e, [])"

definition py_bind :: "'a py \<Rightarrow> ('a \<Rightarrow> 'b py) \<Rightarrow> 'b py" where
  "py_bind m f =
     (case fst m of
        Inl e \<Rightarrow> (Inl e, snd m)
      | Inr v \<Rightarrow> (fst (f v), snd m @ snd (f v)))"

text \<open>A call of the remote node: it is logged, and its exception (if any) propagates.\<close>

definition remote :: "rpc_call \<Rightarrow> string + 'a \<Rightarrow> 'a py" where
  "remote c r =
     (case r of
        Inl msg \<Rightarrow> (Inl (Error msg), [(c, Some msg)])
      | Inr v \<Rightarrow> (Inr v, [(c, None)]))"

text \<open>A call of a library function that runs locally: nothing is logged.\<close>

definition local_call :: "string + 'a \<Rightarrow> 'a py" where
  "local_call r = (case r of Inl msg \<Rightarrow> py_raise (Error msg) | Inr v \<Rightarrow> py_return v)"

text \<open>
  \<open>str(e)\<close> of a caught exception. What it gives for an \<open>HTTPException\<close> depends on the
  installed Starlette, so it is the parameter \<open>hstr\<close>.
\<close>

fun str_exn :: "(nat \<Rightarrow> string \<Rightarrow> string) \<Rightarrow> exn \<Rightarrow> string" where
  "str_exn hstr (HTTPException status_code detail) = hstr status_code detail"
| "str_exn hstr (Error msg) = msg"

text \<open>
  \<^verbatim>\<open>try: ... except Exception as e: raise HTTPException(status_code=500, detail=str(e))\<close>
\<close>

definition try_except_500 :: "(nat \<Rightarrow> string \<Rightarrow> string) \<Rightarrow> 'a py \<Rightarrow> 'a py" where
  "try_except_500 hstr m =
     (case fst m of
        Inl e \<Rightarrow> (Inl (HTTPException 500 (str_exn hstr e)), snd m)
      | Inr v \<Rightarrow> m)"

subsection \<open>Python values\<close>

text \<open>
  \<open>number\<close> is what \<open>from_wei\<close> returns: an \<open>int\<close> or a \<open>decimal.Decimal\<close> (non-negative
  here, with coefficient and exponent). \<open>'f\<close> stands for Python's \<open>float\<close>, whose
  arithmetic is a parameter of the model.
\<close>

datatype number = PyInt int | PyDecimal nat int

datatype 'f json = JNum number | JStr string | JBool bool | JFloat 'f

type_synonym 'f response = "(string \<times> 'f json) list"

function digits_of :: "nat \<Rightarrow> string" where
  "digits_of n =
     (if n < 10 then [''0123456789'' ! n]
      else digits_of (n div 10) @ [''0123456789'' ! (n mod 10)])"
  by pat_completeness auto
termination
  by (relation "measure id") auto

declare digits_of.simps [simp del]

definition str_int :: "int \<Rightarrow> string" where
  "str_int i = (if i < 0 then ''-'' @ digits_of (nat (- i)) else digits_of (nat i))"

text \<open>\<open>Decimal.__str__\<close> for a finite non-negative decimal (scientific notation, capital E).\<close>

definition str_decimal :: "nat \<Rightarrow> int \<Rightarrow> string" where
  "str_decimal c e =
     (let ds = digits_of c;
          len = int (length ds);
          leftdigits = e + len;
          dotplace = (if e \<le> 0 \<and> leftdigits > - 6 then leftdigits else 1);
          intpart = (if dotplace \<le> 0 then ''0''
                     else if dotplace \<ge> len then ds @ replicate (nat (dotplace - len)) (CHR ''0'')
                     else take (nat dotplace) ds);
          fracpart = (if dotplace \<le> 0 then ''.'' @ replicate (nat (- dotplace)) (CHR ''0'') @ ds
                      else if dotplace \<ge> len then ''''
                      else ''.'' @ drop (nat dotplace) ds);
          ex = (if leftdigits = dotplace then ''''
                else ''E'' @ (if leftdigits - dotplace < 0 then ''-'' else ''+'')
                       @ digits_of (nat \<bar>leftdigits - dotplace\<bar>))
      in intpart @ fracpart @ ex)"

fun str_number :: "number \<Rightarrow> string" where
  "str_number (PyInt i) = str_int i"
| "str_number (PyDecimal c e) = str_decimal c e"

fun number_value :: "number \<Rightarrow> real" where
  "number_value (PyInt i) = of_int i"
| "number_value (PyDecimal c e) =
     (if e < 0 then of_nat c / 10 ^ nat (- e) else of_nat c * 10 ^ nat e)"

subsection \<open>The unit conversion of the chain client library\<close>

datatype wei_unit = Ether | Gwei

fun unit_places :: "wei_unit \<Rightarrow> nat" where
  "unit_places Ether = 18"
| "unit_places Gwei = 9"

definition MIN_WEI :: int where
  "MIN_WEI = 0"

definition MAX_WEI :: int where
  "MAX_WEI = 2 ^ 256 - 1"

text \<open>
  An exact decimal quotient keeps the exponent as close to the ideal one (0 here) as it
  can: \<^verbatim>\<open>while exp < ideal_exp and coeff % 10 == 0: coeff //= 10; exp += 1\<close>.
\<close>

function reduce_exp :: "nat \<Rightarrow> int \<Rightarrow> nat \<times> int" where
  "reduce_exp c e = (if e < 0 \<and> c mod 10 = 0 then reduce_exp (c div 10) (e + 1) else (c, e))"
  by pat_completeness auto
termination
  by (relation "measure (\<lambda>(c, e). nat (- e))") auto

declare reduce_exp.simps [simp del]

text \<open>
  \<open>w3.from_wei(number, unit)\<close>: 0 is returned as the int 0, a value outside
  \<open>MIN_WEI .. MAX_WEI\<close> raises \<open>ValueError\<close>, anything else is divided by the unit
  exactly, as a \<open>Decimal\<close>.
\<close>

definition from_wei :: "int \<Rightarrow> wei_unit \<Rightarrow> string + number" where
  "from_wei n u =
     (if n = 0 then Inr (PyInt 0)
      else if n < MIN_WEI \<or> n > MAX_WEI then Inl ''value must be between 1 and 2**256 - 1''
      else Inr (case reduce_exp (nat n) (- int (unit_places u)) of (c, e) \<Rightarrow> PyDecimal c e))"

text \<open>
  \<open>a / b\<close> on two Python ints: \<open>ZeroDivisionError\<close> when \<open>b\<close> is 0, otherwise the float
  quotient \<open>fdiv a b\<close> (which may itself raise \<open>OverflowError\<close>).
\<close>

definition py_truediv :: "(int \<Rightarrow> int \<Rightarrow> string + 'f) \<Rightarrow> int \<Rightarrow> int \<Rightarrow> string + 'f" where
  "py_truediv fdiv a b = (if b = 0 then Inl ''division by zero'' else fdiv a b)"

subsection \<open>The RPC handle and the request bodies\<close>

record block =
  number :: int
  timestamp :: int
  transactions :: "string list"
  gasLimit :: int
  gasUsed :: int

text \<open>
  The handle: what the node answers to each query (\<open>Inl msg\<close>: the call raises an exception
  whose \<open>str\<close> is \<open>msg\<close>), and the two local helpers \<open>is_address\<close> and \<open>to_wei\<close>.
\<close>

record w3 =
  is_connected :: bool
  is_address :: "string \<Rightarrow> bool"
  to_wei :: "string \<Rightarrow> wei_unit \<Rightarrow> string + int"
  eth_block_number :: "string + int"
  eth_gas_price :: "string + int"
  eth_get_balance :: "string \<Rightarrow> string + int"
  eth_get_block :: "block_id \<Rightarrow> string + block"
  eth_estimate_gas :: "string \<Rightarrow> string \<Rightarrow> int \<Rightarrow> string + int"

record BalanceRequest =
  address :: string

record TransactionRequest =
  from_address :: string
  to_address :: string
  amount :: string

subsection \<open>The handlers\<close>

definition probe :: "w3 \<Rightarrow> bool py" where
  "probe h = (Inr (is_connected h), [(Probe, None)])"

text \<open>
  \<^verbatim>\<open>if not w3 or not w3.is_connected(): raise HTTPException(status_code=503, ...)\<close>,
  which stands before the \<open>try\<close> of every handler but \<open>health_check\<close>.
\<close>

definition require_connected :: "w3 option \<Rightarrow> (w3 \<Rightarrow> 'a py) \<Rightarrow> 'a py" where
  "require_connected w body =
     (case w of
        None \<Rightarrow> py_raise (HTTPException 503 ''Not connected to Over Protocol'')
      | Some h \<Rightarrow>
          py_bind (probe h) (\<lambda>c.
            if \<not> c then py_raise (HTTPException 503 ''Not connected to Over Protocol'')
            else body h))"

definition health_check :: "w3 option \<Rightarrow> 'f response py" where
  "health_check w =
     py_bind (case w of None \<Rightarrow> py_return False | Some h \<Rightarrow> probe h) (\<lambda>c.
       py_return
         [(''status'', JStr ''healthy''),
          (''over_protocol_connected'', JBool c),
          (''chain_id'', JNum (PyInt CHAIN_ID))])"

definition get_network_info :: "(nat \<Rightarrow> string \<Rightarrow> string) \<Rightarrow> w3 option \<Rightarrow> 'f response py" where
  "get_network_info hstr w =
     require_connected w (\<lambda>h. try_except_500 hstr (
       py_bind (remote BlockNumber (eth_block_number h)) (\<lambda>latest_block.
       py_bind (remote GasPrice (eth_gas_price h)) (\<lambda>gas_price.
       py_bind (local_call (from_wei gas_price Gwei)) (\<lambda>gas_price_gwei.
         py_return
           [(''chain_id'', JNum (PyInt CHAIN_ID)),
            (''latest_block'', JNum (PyInt latest_block)),
            (''gas_price_gwei'', JNum gas_price_gwei),
            (''rpc_url'', JStr OVER_PROTOCOL_RPC)])))))"

definition check_balance ::
  "(nat \<Rightarrow> string \<Rightarrow> string) \<Rightarrow> w3 option \<Rightarrow> BalanceRequest \<Rightarrow> 'f response py" where
  "check_balance hstr w request =
     require_connected w (\<lambda>h. try_except_500 hstr (
       if \<not> is_address h (address request)
       then py_raise (HTTPException 400 ''Invalid address format'')
       else
         py_bind (remote (GetBalance (address request))
                    (eth_get_balance h (address request))) (\<lambda>balance_wei.
         py_bind (local_call (from_wei balance_wei Ether)) (\<lambda>balance_over.
         py_bind (remote (GetBlock Latest) (eth_get_block h Latest)) (\<lambda>latest.
           py_return
             [(''address'', JStr (address request)),
              (''balance_over'', JStr (str_number balance_over)),
              (''balance_wei'', JStr (str_int balance_wei)),
              (''timestamp'', JNum (PyInt (timestamp latest)))])))))"

definition estimate_gas ::
  "(nat \<Rightarrow> string \<Rightarrow> string) \<Rightarrow> w3 option \<Rightarrow> TransactionRequest \<Rightarrow> 'f response py" where
  "estimate_gas hstr w request =
     require_connected w (\<lambda>h. try_except_500 hstr (
       if \<not> is_address h (from_address request) \<or> \<not> is_address h (to_address request)
       then py_raise (HTTPException 400 ''Invalid address format'')
       else
         py_bind (local_call (to_wei h (amount request) Ether)) (\<lambda>amount_wei.
         py_bind (remote (EstimateGas (from_address request) (to_address request) amount_wei)
                    (eth_estimate_gas h (from_address request) (to_address request) amount_wei))
           (\<lambda>gas_estimate.
         py_bind (remote GasPrice (eth_gas_price h)) (\<lambda>gas_price.
         let total_cost_wei = gas_estimate * gas_price + amount_wei in
         py_bind (local_call (from_wei gas_price Gwei)) (\<lambda>gas_price_gwei.
         py_bind (local_call (from_wei total_cost_wei Ether)) (\<lambda>total_cost_over.
         py_bind (local_call (from_wei (gas_estimate * gas_price) Ether)) (\<lambda>transaction_cost_over.
           py_return
             [(''gas_estimate'', JNum (PyInt gas_estimate)),
              (''gas_price_gwei'', JNum gas_price_gwei),
              (''total_cost_over'', JNum total_cost_over),
              (''transaction_cost_over'', JNum transaction_cost_over)]))))))))"

definition get_network_analytics ::
  "(nat \<Rightarrow> string \<Rightarrow> string) \<Rightarrow> (int \<Rightarrow> int \<Rightarrow> string + 'f) \<Rightarrow> ('f \<Rightarrow> int \<Rightarrow> 'f) \<Rightarrow>
   w3 option \<Rightarrow> 'f response py" where
  "get_network_analytics hstr fdiv fmul w =
     require_connected w (\<lambda>h. try_except_500 hstr (
       py_bind (remote (GetBlock Latest) (eth_get_block h Latest)) (\<lambda>latest_block.
       py_bind
         (if number latest_block > 0
          then
            py_bind (remote (GetBlock (Number (number latest_block - 1)))
                       (eth_get_block h (Number (number latest_block - 1)))) (\<lambda>prev_block.
              py_return (timestamp latest_block - timestamp prev_block))
          else py_return 0) (\<lambda>block_time.
       py_bind (local_call (py_truediv fdiv (gasUsed latest_block) (gasLimit latest_block)))
         (\<lambda>ratio.
         py_return
           [(''latest_block_number'', JNum (PyInt (number latest_block))),
            (''latest_block_timestamp'', JNum (PyInt (timestamp latest_block))),
            (''latest_block_transactions'',
               JNum (PyInt (int (length (transactions latest_block))))),
            (''average_block_time_seconds'', JNum (PyInt block_time)),
            (''gas_limit'', JNum (PyInt (gasLimit latest_block))),
            (''gas_used'', JNum (PyInt (gasUsed latest_block))),
            (''gas_utilization_percent'', JFloat (fmul ratio 100))])))))"


subsection \<open>Reading a trace\<close>

text \<open>The remote queries of a trace: every call but the connectivity probe.\<close>

definition queries :: "event list \<Rightarrow> rpc_call list" where
  "queries t = filter (\<lambda>c. c \<noteq> Probe) (map fst t)"

text \<open>\<^verbatim>\<open>not w3 or not w3.is_connected()\<close>\<close>

definition disconnected :: "w3 option \<Rightarrow> bool" where
  "disconnected w = (case w of None \<Rightarrow> True | Some h \<Rightarrow> \<not> is_connected h)"

text \<open>
  A computation propagates the exceptions of its remote calls: a call that raised
  is the reason the computation failed.
\<close>

definition propagates :: "'a py \<Rightarrow> bool" where
  "propagates m = (\<forall>c msg. (c, Some msg) \<in> set (snd m) \<longrightarrow> fst m = Inl (Error msg))"

subsection \<open>Concrete nodes and requests\<close>

text \<open>The \<open>__str__\<close> of the current Starlette: \<^verbatim>\<open>f"{self.status_code}: {self.detail}"\<close>.\<close>

definition hstr0 :: "nat \<Rightarrow> string \<Rightarrow> string" where
  "hstr0 status_code detail = digits_of status_code @ '': '' @ detail"

text \<open>Exact arithmetic on the reals, standing for the float operations in examples.\<close>

definition exact_div :: "int \<Rightarrow> int \<Rightarrow> string + real" where
  "exact_div a b = Inr (of_int a / of_int b)"

definition exact_mul :: "real \<Rightarrow> int \<Rightarrow> real" where
  "exact_mul x k = x * of_int k"

definition example_is_address :: "string \<Rightarrow> bool" where
  "example_is_address s = (length s = 42 \<and> take 2 s = ''0x'')"

text \<open>The amount, in the major unit, that is \<open>MAX_WEI\<close> in the smallest one.\<close>

definition max_amount :: string where
  "max_amount =
     ''115792089237316195423570985008687907853269984665640564039457.584007913129639935''"

definition example_to_wei :: "string \<Rightarrow> wei_unit \<Rightarrow> string + int" where
  "example_to_wei s u =
     (if s = ''1'' then Inr 1000000000000000000
      else if s = max_amount then Inr MAX_WEI
      else Inl ''Invalid amount'')"

definition example_get_block :: "block_id \<Rightarrow> string + block" where
  "example_get_block b =
     (case b of
        Latest \<Rightarrow>
          Inr \<lparr>number = 7, timestamp = 1000, transactions = [''0xaa'', ''0xbb''],
               gasLimit = 30000000, gasUsed = 15000000\<rparr>
      | Number n \<Rightarrow>
          Inr \<lparr>number = n, timestamp = 988, transactions = [],
               gasLimit = 30000000, gasUsed = 0\<rparr>)"

definition node_up :: w3 where
  "node_up =
     \<lparr>is_connected = True,
      is_address = example_is_address,
      to_wei = example_to_wei,
      eth_block_number = Inr 7,
      eth_gas_price = Inr 1000000000,
      eth_get_balance = (\<lambda>a. Inr 1000000000000000000),
      eth_get_block = example_get_block,
      eth_estimate_gas = (\<lambda>f t v. Inr 21000)\<rparr>"

definition node_down :: w3 where
  "node_down = node_up\<lparr>is_connected := False\<rparr>"

definition node_flaky :: w3 where
  "node_flaky = node_up\<lparr>eth_gas_price := Inl ''read timed out''\<rparr>"

definition node_no_block_number :: w3 where
  "node_no_block_number = node_up\<lparr>eth_block_number := Inl ''connection reset''\<rparr>"

definition node_no_balance :: w3 where
  "node_no_balance = node_up\<lparr>eth_get_balance := (\<lambda>a. Inl ''connection reset'')\<rparr>"

definition node_no_block :: w3 where
  "node_no_block = node_up\<lparr>eth_get_block := (\<lambda>b. Inl ''connection reset'')\<rparr>"

definition node_no_estimate :: w3 where
  "node_no_estimate = node_up\<lparr>eth_estimate_gas := (\<lambda>f t v. Inl ''execution reverted'')\<rparr>"

definition node_no_prev_block :: w3 where
  "node_no_prev_block =
     node_up\<lparr>eth_get_block :=
       (\<lambda>b. case b of Latest \<Rightarrow> example_get_block Latest
                       | Number n \<Rightarrow> Inl ''block not found'')\<rparr>"

definition genesis_block :: block where
  "genesis_block =
     \<lparr>number = 0, timestamp = 1700000000, transactions = [],
      gasLimit = 30000000, gasUsed = 0\<rparr>"

definition node_genesis :: w3 where
  "node_genesis = node_up\<lparr>eth_get_block := (\<lambda>b. Inr genesis_block)\<rparr>"

definition node_zero_limit :: w3 where
  "node_zero_limit = node_up\<lparr>eth_get_block := (\<lambda>b. Inr (genesis_block\<lparr>gasLimit := 0\<rparr>))\<rparr>"

definition good_address :: string where
  "good_address = ''0xABCDABCDABCDABCDABCDABCDABCDABCDABCDABCD''"

definition transfer :: "string \<Rightarrow> TransactionRequest" where
  "transfer a = \<lparr>from_address = good_address, to_address = good_address, amount = a\<rparr>"

section \<open>Properties\<close>

subsection \<open>Evaluating the monad\<close>

lemmas monad_defs = py_return_def py_raise_def py_bind_def remote_def local_call_def
  try_except_500_def require_connected_def probe_def

lemmas node_defs = node_up_def node_down_def node_flaky_def node_genesis_def
  node_zero_limit_def genesis_block_def example_is_address_def example_to_wei_def
  example_get_block_def good_address_def transfer_def max_amount_def

lemma require_connected_down:
  "disconnected w \<Longrightarrow>
   fst (require_connected w body) = Inl (HTTPException 503 ''Not connected to Over Protocol'')
   \<and> queries (snd (require_connected w body)) = []"
  by (cases w) (simp_all add: disconnected_def monad_defs queries_def)

lemma require_connected_up:
  "is_connected h \<Longrightarrow>
   require_connected (Some h) body = (fst (body h), (Probe, None) # snd (body h))"
  by (simp add: monad_defs)

lemma propagates_return: "propagates (py_return v)"
  by (simp add: propagates_def py_return_def)

lemma propagates_raise: "propagates (py_raise e)"
  by (simp add: propagates_def py_raise_def)

lemma propagates_local: "propagates (local_call r)"
  by (cases r) (simp_all add: local_call_def propagates_return propagates_raise)

lemma propagates_remote: "propagates (remote c r)"
  by (cases r) (simp_all add: propagates_def remote_def)

lemma propagates_bind:
  assumes "propagates m" and "\<And>v. propagates (f v)"
  shows "propagates (py_bind m f)"
proof (cases "fst m")
  case (Inl e)
  with assms(1) show ?thesis
    by (simp add: propagates_def py_bind_def)
next
  case (Inr v)
  with assms(1) have quiet: "\<And>c msg. (c, Some msg) \<notin> set (snd m)"
    by (auto simp: propagates_def)
  from assms(2) have "propagates (f v)" .
  with Inr quiet show ?thesis
    by (auto simp: propagates_def py_bind_def)
qed

lemma propagates_if: "propagates a \<Longrightarrow> propagates b \<Longrightarrow> propagates (if c then a else b)"
  by simp

lemma propagates_let: "(\<And>x. propagates (f x)) \<Longrightarrow> propagates (let x = t in f x)"
  by simp

lemmas propagates_intros = propagates_bind propagates_if propagates_let propagates_remote
  propagates_local propagates_return propagates_raise

lemma try_except_500_raised:
  assumes "propagates m" and "(c, Some msg) \<in> set (snd (try_except_500 hstr m))"
  shows "fst (try_except_500 hstr m) = Inl (HTTPException 500 msg)"
proof -
  from assms(2) have "(c, Some msg) \<in> set (snd m)"
    by (simp add: try_except_500_def split: sum.splits)
  with assms(1) have "fst m = Inl (Error msg)"
    by (simp add: propagates_def)
  then show ?thesis
    by (simp add: try_except_500_def)
qed

lemma guarded_try_raised:
  assumes body: "\<And>h. propagates (body h)"
    and ev: "(c, Some msg) \<in> set (snd (require_connected w (\<lambda>h. try_except_500 hstr (body h))))"
  shows "fst (require_connected w (\<lambda>h. try_except_500 hstr (body h)))
           = Inl (HTTPException 500 msg)"
proof (cases w)
  case None
  with ev show ?thesis
    by (simp add: require_connected_def py_raise_def)
next
  case (Some h)
  show ?thesis
  proof (cases "is_connected h")
    case False
    with Some ev show ?thesis
      by (simp add: require_connected_def py_raise_def py_bind_def probe_def)
  next
    case True
    with Some ev have "(c, Some msg) \<in> set (snd (try_except_500 hstr (body h)))"
      by (simp add: require_connected_up)
    from try_except_500_raised [OF body this] Some True show ?thesis
      by (simp add: require_connected_up)
  qed
qed

subsection \<open>The disconnected handle\<close>

text \<open>
  C4. When the handle is absent, or its probe reports disconnected, network-info,
  balance-check, gas-estimate and network-analytics all fail with HTTP 503 and issue
  no remote query: the trace holds the probe at most.
\<close>

theorem disconnected_gives_503:
  assumes "disconnected w"
  shows "fst (get_network_info hstr w :: 'f response py)
           = Inl (HTTPException 503 ''Not connected to Over Protocol'')
       \<and> queries (snd (get_network_info hstr w :: 'f response py)) = []
       \<and> fst (check_balance hstr w breq :: 'f response py)
           = Inl (HTTPException 503 ''Not connected to Over Protocol'')
       \<and> queries (snd (check_balance hstr w breq :: 'f response py)) = []
       \<and> fst (estimate_gas hstr w treq :: 'f response py)
           = Inl (HTTPException 503 ''Not connected to Over Protocol'')
       \<and> queries (snd (estimate_gas hstr w treq :: 'f response py)) = []
       \<and> fst (get_network_analytics hstr fdiv fmul w :: 'f response py)
           = Inl (HTTPException 503 ''Not connected to Over Protocol'')
       \<and> queries (snd (get_network_analytics hstr fdiv fmul w :: 'f response py)) = []"
  unfolding get_network_info_def check_balance_def estimate_gas_def get_network_analytics_def
  using require_connected_down [OF assms] by blast

theorem disconnected_gives_503_witness:
  "disconnected (Some node_down)
   \<and> fst (get_network_info hstr0 (Some node_down) :: real response py)
        = Inl (HTTPException 503 ''Not connected to Over Protocol'')
   \<and> queries (snd (get_network_info hstr0 (Some node_down) :: real response py)) = []
   \<and> fst (check_balance hstr0 (Some node_down) \<lparr>address = good_address\<rparr> :: real response py)
        = Inl (HTTPException 503 ''Not connected to Over Protocol'')
   \<and> queries (snd (check_balance hstr0 (Some node_down) \<lparr>address = good_address\<rparr>
        :: real response py)) = []
   \<and> fst (estimate_gas hstr0 (Some node_down) (transfer ''1'') :: real response py)
        = Inl (HTTPException 503 ''Not connected to Over Protocol'')
   \<and> queries (snd (estimate_gas hstr0 (Some node_down) (transfer ''1'') :: real response py)) = []
   \<and> fst (get_network_analytics hstr0 exact_div exact_mul (Some node_down))
        = Inl (HTTPException 503 ''Not connected to Over Protocol'')
   \<and> queries (snd (get_network_analytics hstr0 exact_div exact_mul (Some node_down))) = []"
proof -
  have down: "disconnected (Some node_down)"
    by (simp add: disconnected_def node_down_def)
  show ?thesis
    using down
      disconnected_gives_503 [OF down, of hstr0 "\<lparr>address = good_address\<rparr>" "transfer ''1''"
        exact_div exact_mul]
    by blast
qed

subsection \<open>The health check\<close>

text \<open>
  C6. The health check never fails. Whatever the handle, it returns status, connected
  flag and chain id; the flag is False when the handle is absent or its probe fails, and
  a connected handle gives status "healthy", over_protocol_connected true and chain id
  54176.
\<close>

theorem health_check_never_fails:
  "(health_check w :: 'f response py) =
     (Inr [(''status'', JStr ''healthy''),
           (''over_protocol_connected'',
              JBool (case w of None \<Rightarrow> False | Some h \<Rightarrow> is_connected h)),
           (''chain_id'', JNum (PyInt 54176))],
      case w of None \<Rightarrow> [] | Some h \<Rightarrow> [(Probe, None)])"
  by (cases w) (simp_all add: health_check_def monad_defs CHAIN_ID_def)

theorem health_check_never_fails_witness:
  "fst (health_check (Some node_up) :: real response py) =
     Inr [(''status'', JStr ''healthy''),
          (''over_protocol_connected'', JBool True),
          (''chain_id'', JNum (PyInt 54176))]
   \<and> fst (health_check None :: real response py) =
     Inr [(''status'', JStr ''healthy''),
          (''over_protocol_connected'', JBool False),
          (''chain_id'', JNum (PyInt 54176))]"
  using health_check_never_fails [where 'f = real, of "Some node_up"]
    health_check_never_fails [where 'f = real, of None]
  by (simp add: node_up_def)

subsection \<open>Malformed input\<close>

text \<open>
  C1. A malformed address is rejected before any remote query, but not with HTTP 400:
  the \<open>HTTPException(400)\<close> is raised inside the \<open>try\<close> block, whose
  \<open>except Exception\<close> catches it and raises HTTP 500 in its place. This holds for
  balance-check and for gas-estimate.
\<close>

theorem malformed_address_caught_as_500:
  assumes "is_connected h"
    and "\<not> is_address h (address breq)"
    and "\<not> is_address h (from_address treq) \<or> \<not> is_address h (to_address treq)"
  shows "check_balance hstr (Some h) breq
           = (Inl (HTTPException 500 (hstr 400 ''Invalid address format'')), [(Probe, None)])
       \<and> estimate_gas hstr (Some h) treq
           = (Inl (HTTPException 500 (hstr 400 ''Invalid address format'')), [(Probe, None)])"
  using assms by (auto simp: check_balance_def estimate_gas_def monad_defs)

theorem malformed_address_caught_as_500_witness:
  "is_connected node_up
   \<and> \<not> is_address node_up (address \<lparr>address = ''not-an-address''\<rparr>)
   \<and> (check_balance hstr0 (Some node_up) \<lparr>address = ''not-an-address''\<rparr> :: real response py)
        = (Inl (HTTPException 500 ''400: Invalid address format''), [(Probe, None)])
   \<and> (estimate_gas hstr0 (Some node_up)
         \<lparr>from_address = ''not-an-address'', to_address = good_address, amount = ''1''\<rparr>
         :: real response py)
        = (Inl (HTTPException 500 ''400: Invalid address format''), [(Probe, None)])"
proof -
  have up: "is_connected node_up"
    by (simp add: node_up_def)
  have bad: "\<not> is_address node_up (address \<lparr>address = ''not-an-address''\<rparr>)"
    by (simp add: node_up_def example_is_address_def)
  have bad2: "\<not> is_address node_up (from_address
      \<lparr>from_address = ''not-an-address'', to_address = good_address, amount = ''1''\<rparr>)
    \<or> \<not> is_address node_up (to_address
      \<lparr>from_address = ''not-an-address'', to_address = good_address, amount = ''1''\<rparr>)"
    by (simp add: node_up_def example_is_address_def)
  have str: "hstr0 400 ''Invalid address format'' = ''400: Invalid address format''"
    by (simp add: hstr0_def digits_of.simps)
  show ?thesis
    using up bad malformed_address_caught_as_500 [OF up bad bad2, of hstr0]
    by (simp add: str)
qed

text \<open>
  C5, as the code has it. With a connected handle and well-formed addresses, an amount
  that \<open>to_wei\<close> cannot parse makes gas-estimate fail with HTTP 500, whose detail is the
  message of the parse exception, and no remote query is issued.
\<close>

theorem unparseable_amount_gives_500:
  assumes "is_connected h"
    and "is_address h (from_address treq)" and "is_address h (to_address treq)"
    and "to_wei h (amount treq) Ether = Inl msg"
  shows "estimate_gas hstr (Some h) treq = (Inl (HTTPException 500 msg), [(Probe, None)])"
  using assms by (simp add: estimate_gas_def monad_defs)

theorem unparseable_amount_gives_500_witness:
  "is_connected node_up
   \<and> is_address node_up (from_address (transfer ''abc''))
   \<and> is_address node_up (to_address (transfer ''abc''))
   \<and> to_wei node_up (amount (transfer ''abc'')) Ether = Inl ''Invalid amount''
   \<and> (estimate_gas hstr0 (Some node_up) (transfer ''abc'') :: real response py)
        = (Inl (HTTPException 500 ''Invalid amount''), [(Probe, None)])"
proof -
  have up: "is_connected node_up"
    by (simp add: node_up_def)
  have a1: "is_address node_up (from_address (transfer ''abc''))"
    by (simp add: node_defs)
  have a2: "is_address node_up (to_address (transfer ''abc''))"
    by (simp add: node_defs)
  have bad: "to_wei node_up (amount (transfer ''abc'')) Ether = Inl ''Invalid amount''"
    by (simp add: node_defs)
  show ?thesis
    using up a1 a2 bad unparseable_amount_gives_500 [OF up a1 a2 bad, of hstr0]
    by simp
qed

text \<open>The claim as the specification states it fails: the status is 500, not 400.\<close>

theorem unparseable_amount_counterexample:
  "fst (estimate_gas hstr0 (Some node_up) (transfer ''abc'') :: real response py)
     = Inl (HTTPException 500 ''Invalid amount'')
   \<and> fst (estimate_gas hstr0 (Some node_up) (transfer ''abc'') :: real response py)
     \<noteq> Inl (HTTPException 400 ''Invalid amount'')"
  by (simp add: estimate_gas_def monad_defs node_defs)

subsection \<open>Exceptions recorded in the trace\<close>

text \<open>
  Whatever the handle and the request, a remote call that the trace of one of the four
  guarded handlers records as raised is the reason the handler failed, with HTTP 500 and
  the message of that call.
\<close>

lemma raised_call_gives_500:
  assumes "r = get_network_info hstr w \<or> r = check_balance hstr w breq
         \<or> r = estimate_gas hstr w treq \<or> r = get_network_analytics hstr fdiv fmul w"
    and "(c, Some msg) \<in> set (snd r)"
  shows "fst r = Inl (HTTPException 500 msg)"
proof -
  have "fst r = Inl (HTTPException 500 msg)" if "r = get_network_info hstr w"
    using assms(2) unfolding that get_network_info_def
    by (rule guarded_try_raised [rotated]) (intro propagates_intros)
  moreover have "fst r = Inl (HTTPException 500 msg)" if "r = check_balance hstr w breq"
    using assms(2) unfolding that check_balance_def
    by (rule guarded_try_raised [rotated]) (intro propagates_intros)
  moreover have "fst r = Inl (HTTPException 500 msg)" if "r = estimate_gas hstr w treq"
    using assms(2) unfolding that estimate_gas_def
    by (rule guarded_try_raised [rotated]) (intro propagates_intros)
  moreover have "fst r = Inl (HTTPException 500 msg)"
    if "r = get_network_analytics hstr fdiv fmul w"
    using assms(2) unfolding that get_network_analytics_def
    by (rule guarded_try_raised [rotated]) (intro propagates_intros)
  ultimately show ?thesis
    using assms(1) by blast
qed

subsection \<open>Unit conversion\<close>

lemma reduce_exp_value:
  "e \<le> 0 \<Longrightarrow> reduce_exp c e = (c', e') \<Longrightarrow>
   e' \<le> 0 \<and> (of_nat c' :: real) / 10 ^ nat (- e') = of_nat c / 10 ^ nat (- e)"
proof (induction c e rule: reduce_exp.induct)
  case (1 c e)
  show ?case
  proof (cases "e < 0 \<and> c mod 10 = 0")
    case True
    then have "reduce_exp c e = reduce_exp (c div 10) (e + 1)"
      by (subst reduce_exp.simps) simp
    with "1.prems" have rec: "reduce_exp (c div 10) (e + 1) = (c', e')"
      by simp
    from True have le: "e + 1 \<le> 0"
      by simp
    from "1.IH" [OF True le rec]
    have ih: "e' \<le> 0"
      "(of_nat c' :: real) / 10 ^ nat (- e') = of_nat (c div 10) / 10 ^ nat (- (e + 1))"
      by simp_all
    from True obtain k where k: "c = 10 * k"
      by (auto simp: mod_eq_0_iff_dvd)
    from True have n: "nat (- e) = Suc (nat (- (e + 1)))"
      by arith
    have "(of_nat c :: real) / 10 ^ nat (- e) = of_nat (c div 10) / 10 ^ nat (- (e + 1))"
      unfolding n k by simp
    with ih show ?thesis
      by simp
  next
    case False
    then have "reduce_exp c e = (c, e)"
      by (subst reduce_exp.simps) auto
    with "1.prems" show ?thesis
      by simp
  qed
qed

lemma from_wei_value:
  assumes "0 \<le> n" and "n \<le> MAX_WEI"
  shows "\<exists>v. from_wei n u = Inr v \<and> number_value v = of_int n / 10 ^ unit_places u"
proof (cases "n = 0")
  case True
  then show ?thesis
    by (simp add: from_wei_def)
next
  case False
  obtain c e where r: "reduce_exp (nat n) (- int (unit_places u)) = (c, e)"
    by (cases "reduce_exp (nat n) (- int (unit_places u))")
  have "- int (unit_places u) \<le> 0"
    by simp
  from reduce_exp_value [OF this r]
  have e: "e \<le> 0"
    and q: "(of_nat c :: real) / 10 ^ nat (- e) = of_nat (nat n) / 10 ^ unit_places u"
    by simp_all
  from False assms r have fw: "from_wei n u = Inr (PyDecimal c e)"
    by (simp add: from_wei_def MIN_WEI_def)
  from e have "number_value (PyDecimal c e) = of_nat c / 10 ^ nat (- e)"
    by (cases "e < 0") simp_all
  with q assms(1) have "number_value (PyDecimal c e) = of_int n / 10 ^ unit_places u"
    by simp
  with fw show ?thesis
    by simp
qed

lemma from_wei_one_gwei: "from_wei 1000000000 Gwei = Inr (PyDecimal 1 0)"
  by (simp add: from_wei_def MIN_WEI_def MAX_WEI_def reduce_exp.simps)

lemma from_wei_one_ether: "from_wei 1000000000000000000 Ether = Inr (PyDecimal 1 0)"
  by (simp add: from_wei_def MIN_WEI_def MAX_WEI_def reduce_exp.simps)

lemma str_decimal_one: "str_decimal 1 0 = ''1''"
  by (simp add: str_decimal_def digits_of.simps)

lemma str_int_one_ether: "str_int 1000000000000000000 = ''1000000000000000000''"
  by (simp add: str_int_def digits_of.simps)

subsection \<open>Gas estimate\<close>

lemma estimate_gas_success:
  assumes "is_connected h"
    and "is_address h (from_address treq)" and "is_address h (to_address treq)"
    and "to_wei h (amount treq) Ether = Inr a"
    and "eth_estimate_gas h (from_address treq) (to_address treq) a = Inr g"
    and "eth_gas_price h = Inr p"
    and "from_wei p Gwei = Inr gp"
    and "from_wei (g * p + a) Ether = Inr tot"
    and "from_wei (g * p) Ether = Inr tx"
  shows "estimate_gas hstr (Some h) treq =
           (Inr [(''gas_estimate'', JNum (PyInt g)),
                 (''gas_price_gwei'', JNum gp),
                 (''total_cost_over'', JNum tot),
                 (''transaction_cost_over'', JNum tx)],
            [(Probe, None),
             (EstimateGas (from_address treq) (to_address treq) a, None),
             (GasPrice, None)])"
  using assms by (simp add: estimate_gas_def monad_defs)

text \<open>
  C2, as the code has it. For non-negative gas_estimate, gas_price and amount (in the
  smallest unit) with gas_price and gas_estimate * gas_price + amount at most
  \<open>MAX_WEI\<close>, gas-estimate returns total_cost_over equal to
  (gas_estimate * gas_price + amount) / 10^18 and transaction_cost_over equal to
  gas_estimate * gas_price / 10^18. The response carries these two costs in the major
  unit only.
\<close>

theorem gas_cost_arithmetic:
  assumes "is_connected h"
    and "is_address h (from_address treq)" and "is_address h (to_address treq)"
    and "to_wei h (amount treq) Ether = Inr a"
    and "eth_estimate_gas h (from_address treq) (to_address treq) a = Inr g"
    and "eth_gas_price h = Inr p"
    and "0 \<le> g" and "0 \<le> p" and "0 \<le> a"
    and "p \<le> MAX_WEI" and "g * p + a \<le> MAX_WEI"
  shows "\<exists>gp tot tx.
           fst (estimate_gas hstr (Some h) treq :: 'f response py) =
             Inr [(''gas_estimate'', JNum (PyInt g)),
                  (''gas_price_gwei'', JNum gp),
                  (''total_cost_over'', JNum tot),
                  (''transaction_cost_over'', JNum tx)]
         \<and> number_value tot = of_int (g * p + a) / 10 ^ 18
         \<and> number_value tx = of_int (g * p) / 10 ^ 18
         \<and> number_value gp = of_int p / 10 ^ 9"
proof -
  from assms have gp0: "0 \<le> g * p"
    by simp
  with assms have tot0: "0 \<le> g * p + a" and txmax: "g * p \<le> MAX_WEI"
    by simp_all
  from from_wei_value [OF \<open>0 \<le> p\<close> \<open>p \<le> MAX_WEI\<close>, of Gwei]
  obtain gp where gp: "from_wei p Gwei = Inr gp" "number_value gp = of_int p / 10 ^ 9"
    by auto
  from from_wei_value [OF tot0 \<open>g * p + a \<le> MAX_WEI\<close>, of Ether]
  obtain tot where tot: "from_wei (g * p + a) Ether = Inr tot"
    "number_value tot = of_int (g * p + a) / 10 ^ 18"
    by auto
  from from_wei_value [OF gp0 txmax, of Ether]
  obtain tx where tx: "from_wei (g * p) Ether = Inr tx"
    "number_value tx = of_int (g * p) / 10 ^ 18"
    by auto
  have "fst (estimate_gas hstr (Some h) treq :: 'f response py) =
          Inr [(''gas_estimate'', JNum (PyInt g)),
               (''gas_price_gwei'', JNum gp),
               (''total_cost_over'', JNum tot),
               (''transaction_cost_over'', JNum tx)]"
    by (simp add: estimate_gas_success [OF assms(1-6) gp(1) tot(1) tx(1)])
  with gp(2) tot(2) tx(2) show ?thesis
    by blast
qed

theorem gas_cost_arithmetic_witness:
  "is_connected node_up
   \<and> is_address node_up (from_address (transfer ''1''))
   \<and> is_address node_up (to_address (transfer ''1''))
   \<and> to_wei node_up (amount (transfer ''1'')) Ether = Inr 1000000000000000000
   \<and> eth_estimate_gas node_up (from_address (transfer ''1'')) (to_address (transfer ''1''))
        1000000000000000000 = Inr 21000
   \<and> eth_gas_price node_up = Inr 1000000000
   \<and> (1000000000 :: int) \<le> MAX_WEI
   \<and> (21000 :: int) * 1000000000 + 1000000000000000000 \<le> MAX_WEI
   \<and> (\<exists>gp tot tx.
         fst (estimate_gas hstr0 (Some node_up) (transfer ''1'') :: real response py) =
           Inr [(''gas_estimate'', JNum (PyInt 21000)),
                (''gas_price_gwei'', JNum gp),
                (''total_cost_over'', JNum tot),
                (''transaction_cost_over'', JNum tx)]
       \<and> number_value tot = 1000021 / 1000000
       \<and> number_value tx = 21 / 1000000
       \<and> number_value gp = 1)"
proof -
  have up: "is_connected node_up"
    by (simp add: node_up_def)
  have a1: "is_address node_up (from_address (transfer ''1''))"
    by (simp add: node_defs)
  have a2: "is_address node_up (to_address (transfer ''1''))"
    by (simp add: node_defs)
  have amt: "to_wei node_up (amount (transfer ''1'')) Ether = Inr 1000000000000000000"
    by (simp add: node_defs)
  have est: "eth_estimate_gas node_up (from_address (transfer ''1''))
      (to_address (transfer ''1'')) 1000000000000000000 = Inr 21000"
    by (simp add: node_up_def)
  have price: "eth_gas_price node_up = Inr 1000000000"
    by (simp add: node_up_def)
  have b1: "(1000000000 :: int) \<le> MAX_WEI"
    by (simp add: MAX_WEI_def)
  have b2: "(21000 :: int) * 1000000000 + 1000000000000000000 \<le> MAX_WEI"
    by (simp add: MAX_WEI_def)
  have n1: "(0 :: int) \<le> 21000" and n2: "(0 :: int) \<le> 1000000000"
    and n3: "(0 :: int) \<le> 1000000000000000000"
    by simp_all
  from gas_cost_arithmetic [OF up a1 a2 amt est price n1 n2 n3 b1 b2,
      where 'f = real and hstr = hstr0]
  show ?thesis
    using up a1 a2 amt est price b1 b2 by simp
qed

text \<open>
  The claim as the specification states it fails on large values: with an amount of
  2^256 - 1 in the smallest unit, a gas estimate of 21000 and a gas price of 10^9, all
  non-negative, the total exceeds what \<open>from_wei\<close> accepts and the operation fails.
\<close>

theorem gas_cost_counterexample:
  "fst (estimate_gas hstr0 (Some node_up) (transfer max_amount) :: real response py)
     = Inl (HTTPException 500 ''value must be between 1 and 2**256 - 1'')"
proof -
  have big: "from_wei (21000000000000 + MAX_WEI) Ether
      = Inl ''value must be between 1 and 2**256 - 1''"
    by (simp add: from_wei_def MIN_WEI_def MAX_WEI_def)
  have amt: "example_to_wei max_amount Ether = Inr MAX_WEI"
    by (simp add: example_to_wei_def max_amount_def)
  show ?thesis
    by (simp add: estimate_gas_def monad_defs amt from_wei_one_gwei big Let_def
        node_up_def transfer_def example_is_address_def good_address_def)
qed

subsection \<open>Balance check\<close>

lemma str_decimal_Suc_0: "str_decimal (Suc 0) 0 = ''1''"
  using str_decimal_one by simp

lemma check_balance_success:
  assumes "is_connected h"
    and "is_address h (address breq)"
    and "eth_get_balance h (address breq) = Inr B"
    and "from_wei B Ether = Inr v"
    and "eth_get_block h Latest = Inr b"
  shows "check_balance hstr (Some h) breq =
           (Inr [(''address'', JStr (address breq)),
                 (''balance_over'', JStr (str_number v)),
                 (''balance_wei'', JStr (str_int B)),
                 (''timestamp'', JNum (PyInt (timestamp b)))],
            [(Probe, None), (GetBalance (address breq), None), (GetBlock Latest, None)])"
  using assms by (simp add: check_balance_def monad_defs)

text \<open>
  C8, as the code has it. For a well-formed address whose balance is B wei, with
  0 \<le> B \<le> \<open>MAX_WEI\<close>, balance-check returns balance_wei, the decimal string of B, and
  balance_over, the string of the exact quotient B / 10^18 that \<open>from_wei\<close> returns. A
  balance of 1000000000000000000 wei gives balance_wei "1000000000000000000" and
  balance_over "1": the quotient is the decimal 1 with exponent 0, which prints without a
  fractional part.
\<close>

theorem balance_both_strings:
  assumes "is_connected h"
    and "is_address h (address breq)"
    and "eth_get_balance h (address breq) = Inr B"
    and "0 \<le> B" and "B \<le> MAX_WEI"
    and "eth_get_block h Latest = Inr b"
  shows "\<exists>v. from_wei B Ether = Inr v
           \<and> number_value v = of_int B / 10 ^ 18
           \<and> fst (check_balance hstr (Some h) breq :: 'f response py) =
               Inr [(''address'', JStr (address breq)),
                    (''balance_over'', JStr (str_number v)),
                    (''balance_wei'', JStr (str_int B)),
                    (''timestamp'', JNum (PyInt (timestamp b)))]
           \<and> (B = 1000000000000000000 \<longrightarrow>
                 str_number v = ''1'' \<and> str_int B = ''1000000000000000000'')"
proof -
  from from_wei_value [OF assms(4,5), of Ether]
  obtain v where v: "from_wei B Ether = Inr v" "number_value v = of_int B / 10 ^ 18"
    by auto
  have res: "fst (check_balance hstr (Some h) breq :: 'f response py) =
      Inr [(''address'', JStr (address breq)),
           (''balance_over'', JStr (str_number v)),
           (''balance_wei'', JStr (str_int B)),
           (''timestamp'', JNum (PyInt (timestamp b)))]"
    by (simp add: check_balance_success [OF assms(1-3) v(1) assms(6)])
  have one: "str_number v = ''1'' \<and> str_int B = ''1000000000000000000''"
    if "B = 1000000000000000000"
    using v(1) unfolding that
    by (auto simp: from_wei_one_ether str_decimal_Suc_0 str_int_one_ether)
  from v res one show ?thesis
    by blast
qed

theorem balance_both_strings_witness:
  "is_connected node_up
   \<and> is_address node_up (address \<lparr>address = good_address\<rparr>)
   \<and> eth_get_balance node_up (address \<lparr>address = good_address\<rparr>) = Inr 1000000000000000000
   \<and> (1000000000000000000 :: int) \<le> MAX_WEI
   \<and> (\<exists>v. from_wei 1000000000000000000 Ether = Inr v
         \<and> number_value v = 1
         \<and> fst (check_balance hstr0 (Some node_up) \<lparr>address = good_address\<rparr>
                  :: real response py) =
             Inr [(''address'', JStr good_address),
                  (''balance_over'', JStr ''1''),
                  (''balance_wei'', JStr ''1000000000000000000''),
                  (''timestamp'', JNum (PyInt 1000))])"
proof -
  have up: "is_connected node_up"
    by (simp add: node_up_def)
  have addr: "is_address node_up (address \<lparr>address = good_address\<rparr>)"
    by (simp add: node_up_def example_is_address_def good_address_def)
  have bal: "eth_get_balance node_up (address \<lparr>address = good_address\<rparr>)
      = Inr 1000000000000000000"
    by (simp add: node_up_def)
  have n0: "(0 :: int) \<le> 1000000000000000000"
    by simp
  have mx: "(1000000000000000000 :: int) \<le> MAX_WEI"
    by (simp add: MAX_WEI_def)
  have blk: "eth_get_block node_up Latest =
      Inr \<lparr>number = 7, timestamp = 1000, transactions = [''0xaa'', ''0xbb''],
           gasLimit = 30000000, gasUsed = 15000000\<rparr>"
    by (simp add: node_up_def example_get_block_def)
  from balance_both_strings [OF up addr bal n0 mx blk, where 'f = real and hstr = hstr0]
  show ?thesis
    using up addr bal mx by auto
qed

text \<open>
  The scenario of the specification: with a balance of 1000000000000000000 wei the
  response carries balance_over "1", not "1.0".
\<close>

theorem balance_over_counterexample:
  "fst (check_balance hstr0 (Some node_up) \<lparr>address = good_address\<rparr> :: real response py) =
     Inr [(''address'', JStr good_address),
          (''balance_over'', JStr ''1''),
          (''balance_wei'', JStr ''1000000000000000000''),
          (''timestamp'', JNum (PyInt 1000))]
   \<and> fst (check_balance hstr0 (Some node_up) \<lparr>address = good_address\<rparr> :: real response py) \<noteq>
     Inr [(''address'', JStr good_address),
          (''balance_over'', JStr ''1.0''),
          (''balance_wei'', JStr ''1000000000000000000''),
          (''timestamp'', JNum (PyInt 1000))]"
proof -
  have "(check_balance hstr0 (Some node_up) \<lparr>address = good_address\<rparr>
        :: real response py) =
      (Inr [(''address'', JStr (address \<lparr>address = good_address\<rparr>)),
            (''balance_over'', JStr (str_number (PyDecimal 1 0))),
            (''balance_wei'', JStr (str_int 1000000000000000000)),
            (''timestamp'', JNum (PyInt (timestamp
               \<lparr>number = 7, timestamp = 1000, transactions = [''0xaa'', ''0xbb''],
                gasLimit = 30000000, gasUsed = 15000000\<rparr>)))],
       [(Probe, None), (GetBalance (address \<lparr>address = good_address\<rparr>), None),
        (GetBlock Latest, None)])"
    by (rule check_balance_success)
      (simp_all add: node_up_def example_is_address_def good_address_def
        example_get_block_def from_wei_one_ether)
  then show ?thesis
    by (simp add: str_decimal_Suc_0 str_int_one_ether)
qed

subsection \<open>Network analytics\<close>

lemma analytics_with_prev:
  assumes "is_connected h"
    and "eth_get_block h Latest = Inr b"
    and "number b > 0"
    and "eth_get_block h (Number (number b - 1)) = Inr p"
    and "gasLimit b \<noteq> 0"
    and "fdiv (gasUsed b) (gasLimit b) = Inr q"
  shows "get_network_analytics hstr fdiv fmul (Some h) =
           (Inr [(''latest_block_number'', JNum (PyInt (number b))),
                 (''latest_block_timestamp'', JNum (PyInt (timestamp b))),
                 (''latest_block_transactions'', JNum (PyInt (int (length (transactions b))))),
                 (''average_block_time_seconds'', JNum (PyInt (timestamp b - timestamp p))),
                 (''gas_limit'', JNum (PyInt (gasLimit b))),
                 (''gas_used'', JNum (PyInt (gasUsed b))),
                 (''gas_utilization_percent'', JFloat (fmul q 100))],
            [(Probe, None), (GetBlock Latest, None),
             (GetBlock (Number (number b - 1)), None)])"
  using assms by (simp add: get_network_analytics_def monad_defs py_truediv_def)

lemma analytics_without_prev:
  assumes "is_connected h"
    and "eth_get_block h Latest = Inr b"
    and "\<not> number b > 0"
    and "gasLimit b \<noteq> 0"
    and "fdiv (gasUsed b) (gasLimit b) = Inr q"
  shows "get_network_analytics hstr fdiv fmul (Some h) =
           (Inr [(''latest_block_number'', JNum (PyInt (number b))),
                 (''latest_block_timestamp'', JNum (PyInt (timestamp b))),
                 (''latest_block_transactions'', JNum (PyInt (int (length (transactions b))))),
                 (''average_block_time_seconds'', JNum (PyInt 0)),
                 (''gas_limit'', JNum (PyInt (gasLimit b))),
                 (''gas_used'', JNum (PyInt (gasUsed b))),
                 (''gas_utilization_percent'', JFloat (fmul q 100))],
            [(Probe, None), (GetBlock Latest, None)])"
  using assms by (simp add: get_network_analytics_def monad_defs py_truediv_def)

lemma analytics_zero_limit:
  assumes "is_connected h"
    and "eth_get_block h Latest = Inr b"
    and "number b > 0 \<longrightarrow> (\<exists>p. eth_get_block h (Number (number b - 1)) = Inr p)"
    and "gasLimit b = 0"
  shows "fst (get_network_analytics hstr fdiv fmul (Some h))
           = Inl (HTTPException 500 ''division by zero'')"
  using assms by (auto simp: get_network_analytics_def monad_defs py_truediv_def)

text \<open>
  C3. With the latest block fetched (and its predecessor, when there is one),
  gas_utilization_percent is gasUsed / gasLimit * 100 in Python's float arithmetic: the
  quotient of the two ints, then times 100. Nothing guards a gasLimit of 0: the division
  raises ZeroDivisionError, which the handler reports as HTTP 500 "division by zero".
\<close>

theorem gas_utilization_percent:
  assumes "is_connected h"
    and "eth_get_block h Latest = Inr b"
    and "number b > 0 \<longrightarrow> (\<exists>p. eth_get_block h (Number (number b - 1)) = Inr p)"
  shows "(gasLimit b \<noteq> 0 \<and> fdiv (gasUsed b) (gasLimit b) = Inr q \<longrightarrow>
            (\<exists>resp. fst (get_network_analytics hstr fdiv fmul (Some h)) = Inr resp
               \<and> map_of resp ''gas_utilization_percent'' = Some (JFloat (fmul q 100))))
       \<and> (gasLimit b = 0 \<longrightarrow>
            fst (get_network_analytics hstr fdiv fmul (Some h))
              = Inl (HTTPException 500 ''division by zero''))"
proof (intro conjI impI)
  assume ok: "gasLimit b \<noteq> 0 \<and> fdiv (gasUsed b) (gasLimit b) = Inr q"
  show "\<exists>resp. fst (get_network_analytics hstr fdiv fmul (Some h)) = Inr resp
          \<and> map_of resp ''gas_utilization_percent'' = Some (JFloat (fmul q 100))"
  proof (cases "number b > 0")
    case True
    with assms(3) obtain p where "eth_get_block h (Number (number b - 1)) = Inr p"
      by blast
    from analytics_with_prev
      [where fdiv = fdiv and q = q and hstr = hstr and fmul = fmul, OF assms(1,2) True this] ok
    show ?thesis
      by simp
  next
    case False
    from analytics_without_prev
      [where fdiv = fdiv and q = q and hstr = hstr and fmul = fmul, OF assms(1,2) False] ok
    show ?thesis
      by simp
  qed
next
  assume "gasLimit b = 0"
  with assms show "fst (get_network_analytics hstr fdiv fmul (Some h))
      = Inl (HTTPException 500 ''division by zero'')"
    by (rule analytics_zero_limit)
qed

theorem gas_utilization_percent_witness:
  "is_connected node_up
   \<and> eth_get_block node_up Latest =
       Inr \<lparr>number = 7, timestamp = 1000, transactions = [''0xaa'', ''0xbb''],
            gasLimit = 30000000, gasUsed = 15000000\<rparr>
   \<and> exact_div 15000000 30000000 = Inr (1 / 2)
   \<and> (\<exists>resp. fst (get_network_analytics hstr0 exact_div exact_mul (Some node_up)) = Inr resp
         \<and> map_of resp ''gas_utilization_percent'' = Some (JFloat 50))
   \<and> is_connected node_zero_limit
   \<and> eth_get_block node_zero_limit Latest = Inr (genesis_block\<lparr>gasLimit := 0\<rparr>)
   \<and> fst (get_network_analytics hstr0 exact_div exact_mul (Some node_zero_limit))
       = Inl (HTTPException 500 ''division by zero'')"
proof -
  let ?b = "\<lparr>number = 7, timestamp = 1000, transactions = [''0xaa'', ''0xbb''],
             gasLimit = 30000000, gasUsed = 15000000\<rparr>"
  have up: "is_connected node_up"
    by (simp add: node_up_def)
  have latest: "eth_get_block node_up Latest = Inr ?b"
    by (simp add: node_up_def example_get_block_def)
  have prev: "number ?b > 0 \<longrightarrow> (\<exists>p. eth_get_block node_up (Number (number ?b - 1)) = Inr p)"
    by (simp add: node_up_def example_get_block_def)
  have q: "exact_div 15000000 30000000 = Inr (1 / 2)"
    by (simp add: exact_div_def)
  have pct: "exact_mul (1 / 2) 100 = 50"
    by (simp add: exact_mul_def)
  have up0: "is_connected node_zero_limit"
    by (simp add: node_zero_limit_def node_up_def)
  have latest0: "eth_get_block node_zero_limit Latest = Inr (genesis_block\<lparr>gasLimit := 0\<rparr>)"
    by (simp add: node_zero_limit_def)
  have prev0: "number (genesis_block\<lparr>gasLimit := 0\<rparr>) > 0 \<longrightarrow>
      (\<exists>p. eth_get_block node_zero_limit
         (Number (number (genesis_block\<lparr>gasLimit := 0\<rparr>) - 1)) = Inr p)"
    by (simp add: genesis_block_def)
  from gas_utilization_percent
      [where fdiv = exact_div and q = "1 / 2" and hstr = hstr0 and fmul = exact_mul,
        OF up latest prev]
    gas_utilization_percent
      [where fdiv = exact_div and q = "1 / 2" and hstr = hstr0 and fmul = exact_mul,
        OF up0 latest0 prev0]
  show ?thesis
    using up latest q up0 latest0 by (simp add: pct)
qed

text \<open>
  C7. When the latest block N has a predecessor, average_block_time_seconds is the
  timestamp of block N minus the timestamp of block N-1, the one delta between the two
  blocks fetched; timestamps 1000 and 988 give 12.
\<close>

theorem average_block_time_is_delta:
  assumes "is_connected h"
    and "eth_get_block h Latest = Inr b"
    and "number b > 0"
    and "eth_get_block h (Number (number b - 1)) = Inr p"
    and "gasLimit b \<noteq> 0"
    and "fdiv (gasUsed b) (gasLimit b) = Inr q"
  shows "\<exists>resp. get_network_analytics hstr fdiv fmul (Some h) =
             (Inr resp, [(Probe, None), (GetBlock Latest, None),
                         (GetBlock (Number (number b - 1)), None)])
           \<and> map_of resp ''average_block_time_seconds''
               = Some (JNum (PyInt (timestamp b - timestamp p)))"
  using analytics_with_prev [where fdiv = fdiv and hstr = hstr and fmul = fmul, OF assms]
  by simp

theorem average_block_time_is_delta_witness:
  "is_connected node_up
   \<and> eth_get_block node_up Latest =
       Inr \<lparr>number = 7, timestamp = 1000, transactions = [''0xaa'', ''0xbb''],
            gasLimit = 30000000, gasUsed = 15000000\<rparr>
   \<and> eth_get_block node_up (Number 6) =
       Inr \<lparr>number = 6, timestamp = 988, transactions = [],
            gasLimit = 30000000, gasUsed = 0\<rparr>
   \<and> (\<exists>resp. get_network_analytics hstr0 exact_div exact_mul (Some node_up) =
           (Inr resp, [(Probe, None), (GetBlock Latest, None), (GetBlock (Number 6), None)])
         \<and> map_of resp ''average_block_time_seconds'' = Some (JNum (PyInt 12)))"
proof -
  let ?b = "\<lparr>number = 7, timestamp = 1000, transactions = [''0xaa'', ''0xbb''],
             gasLimit = 30000000, gasUsed = 15000000\<rparr>"
  let ?p = "\<lparr>number = 6, timestamp = 988, transactions = [],
             gasLimit = 30000000, gasUsed = 0\<rparr>"
  have up: "is_connected node_up"
    by (simp add: node_up_def)
  have latest: "eth_get_block node_up Latest = Inr ?b"
    by (simp add: node_up_def example_get_block_def)
  have pos: "number ?b > 0"
    by simp
  have prev: "eth_get_block node_up (Number (number ?b - 1)) = Inr ?p"
    by (simp add: node_up_def example_get_block_def)
  have lim: "gasLimit ?b \<noteq> 0"
    by simp
  have q: "exact_div (gasUsed ?b) (gasLimit ?b) = Inr (1 / 2)"
    by (simp add: exact_div_def)
  from average_block_time_is_delta
    [where fdiv = exact_div and hstr = hstr0 and fmul = exact_mul, OF up latest pos prev lim q]
  show ?thesis
    using up latest prev by simp
qed

text \<open>
  C10. When the number of the latest block is 0, network-analytics fetches no previous
  block, returns average_block_time_seconds 0, and computes every other field from the
  latest block.
\<close>

theorem genesis_block_time_zero:
  assumes "is_connected h"
    and "eth_get_block h Latest = Inr b"
    and "number b = 0"
    and "gasLimit b \<noteq> 0"
    and "fdiv (gasUsed b) (gasLimit b) = Inr q"
  shows "get_network_analytics hstr fdiv fmul (Some h) =
           (Inr [(''latest_block_number'', JNum (PyInt 0)),
                 (''latest_block_timestamp'', JNum (PyInt (timestamp b))),
                 (''latest_block_transactions'', JNum (PyInt (int (length (transactions b))))),
                 (''average_block_time_seconds'', JNum (PyInt 0)),
                 (''gas_limit'', JNum (PyInt (gasLimit b))),
                 (''gas_used'', JNum (PyInt (gasUsed b))),
                 (''gas_utilization_percent'', JFloat (fmul q 100))],
            [(Probe, None), (GetBlock Latest, None)])"
proof -
  from assms(3) have "\<not> number b > 0"
    by simp
  from analytics_without_prev
    [where fdiv = fdiv and hstr = hstr and fmul = fmul, OF assms(1,2) this assms(4,5)] assms(3)
  show ?thesis
    by simp
qed

theorem genesis_block_time_zero_witness:
  "is_connected node_genesis
   \<and> eth_get_block node_genesis Latest = Inr genesis_block
   \<and> number genesis_block = 0
   \<and> gasLimit genesis_block \<noteq> 0
   \<and> exact_div (gasUsed genesis_block) (gasLimit genesis_block) = Inr 0
   \<and> get_network_analytics hstr0 exact_div exact_mul (Some node_genesis) =
       (Inr [(''latest_block_number'', JNum (PyInt 0)),
             (''latest_block_timestamp'', JNum (PyInt 1700000000)),
             (''latest_block_transactions'', JNum (PyInt 0)),
             (''average_block_time_seconds'', JNum (PyInt 0)),
             (''gas_limit'', JNum (PyInt 30000000)),
             (''gas_used'', JNum (PyInt 0)),
             (''gas_utilization_percent'', JFloat 0)],
        [(Probe, None), (GetBlock Latest, None)])"
proof -
  have up: "is_connected node_genesis"
    by (simp add: node_genesis_def node_up_def)
  have latest: "eth_get_block node_genesis Latest = Inr genesis_block"
    by (simp add: node_genesis_def)
  have zero: "number genesis_block = 0"
    by (simp add: genesis_block_def)
  have lim: "gasLimit genesis_block \<noteq> 0"
    by (simp add: genesis_block_def)
  have q: "exact_div (gasUsed genesis_block) (gasLimit genesis_block) = Inr 0"
    by (simp add: exact_div_def genesis_block_def)
  from genesis_block_time_zero
    [where fdiv = exact_div and hstr = hstr0 and fmul = exact_mul, OF up latest zero lim q]
  show ?thesis
    using up latest zero lim q by (simp add: genesis_block_def exact_mul_def)
qed

subsection \<open>Upstream failures\<close>

text \<open>
  What each guarded handler returns when one of its remote calls raises, the calls
  before it having succeeded: HTTP 500 with the message of the exception, and a trace that
  ends at the failed call.
\<close>

lemma network_info_block_number_fails:
  assumes "is_connected h" and "eth_block_number h = Inl msg"
  shows "get_network_info hstr (Some h) =
           (Inl (HTTPException 500 msg), [(Probe, None), (BlockNumber, Some msg)])"
  using assms by (simp add: get_network_info_def monad_defs)

lemma network_info_gas_price_fails:
  assumes "is_connected h" and "eth_block_number h = Inr n" and "eth_gas_price h = Inl msg"
  shows "get_network_info hstr (Some h) =
           (Inl (HTTPException 500 msg),
            [(Probe, None), (BlockNumber, None), (GasPrice, Some msg)])"
  using assms by (simp add: get_network_info_def monad_defs)

lemma check_balance_get_balance_fails:
  assumes "is_connected h" and "is_address h (address breq)"
    and "eth_get_balance h (address breq) = Inl msg"
  shows "check_balance hstr (Some h) breq =
           (Inl (HTTPException 500 msg),
            [(Probe, None), (GetBalance (address breq), Some msg)])"
  using assms by (simp add: check_balance_def monad_defs)

lemma check_balance_get_block_fails:
  assumes "is_connected h" and "is_address h (address breq)"
    and "eth_get_balance h (address breq) = Inr B"
    and "from_wei B Ether = Inr v"
    and "eth_get_block h Latest = Inl msg"
  shows "check_balance hstr (Some h) breq =
           (Inl (HTTPException 500 msg),
            [(Probe, None), (GetBalance (address breq), None), (GetBlock Latest, Some msg)])"
  using assms by (simp add: check_balance_def monad_defs)

lemma estimate_gas_estimate_fails:
  assumes "is_connected h"
    and "is_address h (from_address treq)" and "is_address h (to_address treq)"
    and "to_wei h (amount treq) Ether = Inr a"
    and "eth_estimate_gas h (from_address treq) (to_address treq) a = Inl msg"
  shows "estimate_gas hstr (Some h) treq =
           (Inl (HTTPException 500 msg),
            [(Probe, None),
             (EstimateGas (from_address treq) (to_address treq) a, Some msg)])"
  using assms by (simp add: estimate_gas_def monad_defs)

lemma estimate_gas_gas_price_fails:
  assumes "is_connected h"
    and "is_address h (from_address treq)" and "is_address h (to_address treq)"
    and "to_wei h (amount treq) Ether = Inr a"
    and "eth_estimate_gas h (from_address treq) (to_address treq) a = Inr g"
    and "eth_gas_price h = Inl msg"
  shows "estimate_gas hstr (Some h) treq =
           (Inl (HTTPException 500 msg),
            [(Probe, None),
             (EstimateGas (from_address treq) (to_address treq) a, None),
             (GasPrice, Some msg)])"
  using assms by (simp add: estimate_gas_def monad_defs)

lemma analytics_latest_fails:
  assumes "is_connected h" and "eth_get_block h Latest = Inl msg"
  shows "get_network_analytics hstr fdiv fmul (Some h) =
           (Inl (HTTPException 500 msg), [(Probe, None), (GetBlock Latest, Some msg)])"
  using assms by (simp add: get_network_analytics_def monad_defs)

lemma analytics_prev_fails:
  assumes "is_connected h" and "eth_get_block h Latest = Inr b" and "number b > 0"
    and "eth_get_block h (Number (number b - 1)) = Inl msg"
  shows "get_network_analytics hstr fdiv fmul (Some h) =
           (Inl (HTTPException 500 msg),
            [(Probe, None), (GetBlock Latest, None),
             (GetBlock (Number (number b - 1)), Some msg)])"
  using assms by (simp add: get_network_analytics_def monad_defs)

text \<open>
  C9. On a connected handle, whichever remote call of network-info, balance-check,
  gas-estimate or network-analytics raises an exception (the block number or the gas
  price; the balance or the latest block; the gas estimate or the gas price; the latest
  block or the one before it), the operation fails with HTTP 500 whose detail is the
  message of that exception, unchanged, and issues no further call.
\<close>

theorem upstream_exception_gives_500:
  assumes "is_connected h"
  shows
    "(eth_block_number h = Inl msg \<longrightarrow>
        (get_network_info hstr (Some h) :: 'f response py) =
          (Inl (HTTPException 500 msg), [(Probe, None), (BlockNumber, Some msg)]))
   \<and> (eth_block_number h = Inr n \<and> eth_gas_price h = Inl msg \<longrightarrow>
        (get_network_info hstr (Some h) :: 'f response py) =
          (Inl (HTTPException 500 msg),
           [(Probe, None), (BlockNumber, None), (GasPrice, Some msg)]))
   \<and> (is_address h (address breq) \<and> eth_get_balance h (address breq) = Inl msg \<longrightarrow>
        (check_balance hstr (Some h) breq :: 'f response py) =
          (Inl (HTTPException 500 msg),
           [(Probe, None), (GetBalance (address breq), Some msg)]))
   \<and> (is_address h (address breq) \<and> eth_get_balance h (address breq) = Inr B
        \<and> from_wei B Ether = Inr v \<and> eth_get_block h Latest = Inl msg \<longrightarrow>
        (check_balance hstr (Some h) breq :: 'f response py) =
          (Inl (HTTPException 500 msg),
           [(Probe, None), (GetBalance (address breq), None), (GetBlock Latest, Some msg)]))
   \<and> (is_address h (from_address treq) \<and> is_address h (to_address treq)
        \<and> to_wei h (amount treq) Ether = Inr a
        \<and> eth_estimate_gas h (from_address treq) (to_address treq) a = Inl msg \<longrightarrow>
        (estimate_gas hstr (Some h) treq :: 'f response py) =
          (Inl (HTTPException 500 msg),
           [(Probe, None),
            (EstimateGas (from_address treq) (to_address treq) a, Some msg)]))
   \<and> (is_address h (from_address treq) \<and> is_address h (to_address treq)
        \<and> to_wei h (amount treq) Ether = Inr a
        \<and> eth_estimate_gas h (from_address treq) (to_address treq) a = Inr g
        \<and> eth_gas_price h = Inl msg \<longrightarrow>
        (estimate_gas hstr (Some h) treq :: 'f response py) =
          (Inl (HTTPException 500 msg),
           [(Probe, None),
            (EstimateGas (from_address treq) (to_address treq) a, None),
            (GasPrice, Some msg)]))
   \<and> (eth_get_block h Latest = Inl msg \<longrightarrow>
        (get_network_analytics hstr fdiv fmul (Some h) :: 'f response py) =
          (Inl (HTTPException 500 msg), [(Probe, None), (GetBlock Latest, Some msg)]))
   \<and> (eth_get_block h Latest = Inr b \<and> number b > 0
        \<and> eth_get_block h (Number (number b - 1)) = Inl msg \<longrightarrow>
        (get_network_analytics hstr fdiv fmul (Some h) :: 'f response py) =
          (Inl (HTTPException 500 msg),
           [(Probe, None), (GetBlock Latest, None),
            (GetBlock (Number (number b - 1)), Some msg)]))"
proof (intro conjI impI)
  assume "eth_block_number h = Inl msg"
  with assms show "(get_network_info hstr (Some h) :: 'f response py) =
      (Inl (HTTPException 500 msg), [(Probe, None), (BlockNumber, Some msg)])"
    by (rule network_info_block_number_fails)
next
  assume "eth_block_number h = Inr n \<and> eth_gas_price h = Inl msg"
  with assms show "(get_network_info hstr (Some h) :: 'f response py) =
      (Inl (HTTPException 500 msg),
       [(Probe, None), (BlockNumber, None), (GasPrice, Some msg)])"
    by (simp add: network_info_gas_price_fails)
next
  assume "is_address h (address breq) \<and> eth_get_balance h (address breq) = Inl msg"
  with assms show "(check_balance hstr (Some h) breq :: 'f response py) =
      (Inl (HTTPException 500 msg),
       [(Probe, None), (GetBalance (address breq), Some msg)])"
    by (simp add: check_balance_get_balance_fails)
next
  assume "is_address h (address breq) \<and> eth_get_balance h (address breq) = Inr B
    \<and> from_wei B Ether = Inr v \<and> eth_get_block h Latest = Inl msg"
  with assms show "(check_balance hstr (Some h) breq :: 'f response py) =
      (Inl (HTTPException 500 msg),
       [(Probe, None), (GetBalance (address breq), None), (GetBlock Latest, Some msg)])"
    by (simp add: check_balance_get_block_fails)
next
  assume "is_address h (from_address treq) \<and> is_address h (to_address treq)
    \<and> to_wei h (amount treq) Ether = Inr a
    \<and> eth_estimate_gas h (from_address treq) (to_address treq) a = Inl msg"
  with assms show "(estimate_gas hstr (Some h) treq :: 'f response py) =
      (Inl (HTTPException 500 msg),
       [(Probe, None),
        (EstimateGas (from_address treq) (to_address treq) a, Some msg)])"
    by (simp add: estimate_gas_estimate_fails)
next
  assume "is_address h (from_address treq) \<and> is_address h (to_address treq)
    \<and> to_wei h (amount treq) Ether = Inr a
    \<and> eth_estimate_gas h (from_address treq) (to_address treq) a = Inr g
    \<and> eth_gas_price h = Inl msg"
  with assms show "(estimate_gas hstr (Some h) treq :: 'f response py) =
      (Inl (HTTPException 500 msg),
       [(Probe, None),
        (EstimateGas (from_address treq) (to_address treq) a, None),
        (GasPrice, Some msg)])"
    by (simp add: estimate_gas_gas_price_fails)
next
  assume "eth_get_block h Latest = Inl msg"
  with assms show "(get_network_analytics hstr fdiv fmul (Some h) :: 'f response py) =
      (Inl (HTTPException 500 msg), [(Probe, None), (GetBlock Latest, Some msg)])"
    by (rule analytics_latest_fails)
next
  assume "eth_get_block h Latest = Inr b \<and> number b > 0
    \<and> eth_get_block h (Number (number b - 1)) = Inl msg"
  with assms show "(get_network_analytics hstr fdiv fmul (Some h) :: 'f response py) =
      (Inl (HTTPException 500 msg),
       [(Probe, None), (GetBlock Latest, None),
        (GetBlock (Number (number b - 1)), Some msg)])"
    by (simp add: analytics_prev_fails)
qed

theorem upstream_exception_gives_500_witness:
  "is_connected node_no_block_number \<and> is_connected node_flaky
   \<and> is_connected node_no_balance \<and> is_connected node_no_block
   \<and> is_connected node_no_estimate \<and> is_connected node_no_prev_block
   \<and> eth_block_number node_no_block_number = Inl ''connection reset''
   \<and> (get_network_info hstr0 (Some node_no_block_number) :: real response py) =
       (Inl (HTTPException 500 ''connection reset''),
        [(Probe, None), (BlockNumber, Some ''connection reset'')])
   \<and> eth_gas_price node_flaky = Inl ''read timed out''
   \<and> (get_network_info hstr0 (Some node_flaky) :: real response py) =
       (Inl (HTTPException 500 ''read timed out''),
        [(Probe, None), (BlockNumber, None), (GasPrice, Some ''read timed out'')])
   \<and> eth_get_balance node_no_balance good_address = Inl ''connection reset''
   \<and> (check_balance hstr0 (Some node_no_balance) \<lparr>address = good_address\<rparr>
        :: real response py) =
       (Inl (HTTPException 500 ''connection reset''),
        [(Probe, None), (GetBalance good_address, Some ''connection reset'')])
   \<and> eth_get_block node_no_block Latest = Inl ''connection reset''
   \<and> (check_balance hstr0 (Some node_no_block) \<lparr>address = good_address\<rparr>
        :: real response py) =
       (Inl (HTTPException 500 ''connection reset''),
        [(Probe, None), (GetBalance good_address, None),
         (GetBlock Latest, Some ''connection reset'')])
   \<and> eth_estimate_gas node_no_estimate good_address good_address 1000000000000000000
       = Inl ''execution reverted''
   \<and> (estimate_gas hstr0 (Some node_no_estimate) (transfer ''1'') :: real response py) =
       (Inl (HTTPException 500 ''execution reverted''),
        [(Probe, None),
         (EstimateGas good_address good_address 1000000000000000000,
          Some ''execution reverted'')])
   \<and> (estimate_gas hstr0 (Some node_flaky) (transfer ''1'') :: real response py) =
       (Inl (HTTPException 500 ''read timed out''),
        [(Probe, None),
         (EstimateGas good_address good_address 1000000000000000000, None),
         (GasPrice, Some ''read timed out'')])
   \<and> (get_network_analytics hstr0 exact_div exact_mul (Some node_no_block)) =
       (Inl (HTTPException 500 ''connection reset''),
        [(Probe, None), (GetBlock Latest, Some ''connection reset'')])
   \<and> eth_get_block node_no_prev_block (Number 6) = Inl ''block not found''
   \<and> (get_network_analytics hstr0 exact_div exact_mul (Some node_no_prev_block)) =
       (Inl (HTTPException 500 ''block not found''),
        [(Probe, None), (GetBlock Latest, None),
         (GetBlock (Number 6), Some ''block not found'')])"
proof -
  let ?b = "\<lparr>number = 7, timestamp = 1000, transactions = [''0xaa'', ''0xbb''],
             gasLimit = 30000000, gasUsed = 15000000\<rparr>"
  have up1: "is_connected node_no_block_number"
    by (simp add: node_no_block_number_def node_up_def)
  have up2: "is_connected node_flaky"
    by (simp add: node_flaky_def node_up_def)
  have up3: "is_connected node_no_balance"
    by (simp add: node_no_balance_def node_up_def)
  have up4: "is_connected node_no_block"
    by (simp add: node_no_block_def node_up_def)
  have up5: "is_connected node_no_estimate"
    by (simp add: node_no_estimate_def node_up_def)
  have up6: "is_connected node_no_prev_block"
    by (simp add: node_no_prev_block_def node_up_def)
  have bn: "eth_block_number node_no_block_number = Inl ''connection reset''"
    by (simp add: node_no_block_number_def)
  have bn2: "eth_block_number node_flaky = Inr 7"
    by (simp add: node_flaky_def node_up_def)
  have gp: "eth_gas_price node_flaky = Inl ''read timed out''"
    by (simp add: node_flaky_def)
  have addr: "\<And>h. is_address h = example_is_address \<Longrightarrow>
      is_address h (address \<lparr>address = good_address\<rparr>)
      \<and> is_address h (from_address (transfer ''1''))
      \<and> is_address h (to_address (transfer ''1''))"
    by (simp add: example_is_address_def good_address_def transfer_def)
  have bal: "eth_get_balance node_no_balance (address \<lparr>address = good_address\<rparr>)
      = Inl ''connection reset''"
    by (simp add: node_no_balance_def)
  have bal4: "eth_get_balance node_no_block (address \<lparr>address = good_address\<rparr>)
      = Inr 1000000000000000000"
    by (simp add: node_no_block_def node_up_def)
  have blk4: "eth_get_block node_no_block Latest = Inl ''connection reset''"
    by (simp add: node_no_block_def)
  have amt: "\<And>h. to_wei h = example_to_wei \<Longrightarrow>
      to_wei h (amount (transfer ''1'')) Ether = Inr 1000000000000000000"
    by (simp add: example_to_wei_def transfer_def)
  have est5: "eth_estimate_gas node_no_estimate (from_address (transfer ''1''))
      (to_address (transfer ''1'')) 1000000000000000000 = Inl ''execution reverted''"
    by (simp add: node_no_estimate_def)
  have est2: "eth_estimate_gas node_flaky (from_address (transfer ''1''))
      (to_address (transfer ''1'')) 1000000000000000000 = Inr 21000"
    by (simp add: node_flaky_def node_up_def)
  have blk6: "eth_get_block node_no_prev_block Latest = Inr ?b"
    by (simp add: node_no_prev_block_def example_get_block_def)
  have prev6: "eth_get_block node_no_prev_block (Number (number ?b - 1))
      = Inl ''block not found''"
    by (simp add: node_no_prev_block_def)
  have a1: "is_address node_no_balance = example_is_address"
    "is_address node_no_block = example_is_address"
    "is_address node_no_estimate = example_is_address"
    "is_address node_flaky = example_is_address"
    by (simp_all add: node_no_balance_def node_no_block_def node_no_estimate_def
        node_flaky_def node_up_def)
  have w1: "to_wei node_no_estimate = example_to_wei" "to_wei node_flaky = example_to_wei"
    by (simp_all add: node_no_estimate_def node_flaky_def node_up_def)
  have c1: "(get_network_info hstr0 (Some node_no_block_number) :: real response py) =
      (Inl (HTTPException 500 ''connection reset''),
       [(Probe, None), (BlockNumber, Some ''connection reset'')])"
    using upstream_exception_gives_500
      [where 'f = real and h = node_no_block_number and msg = "''connection reset''"
        and hstr = hstr0, OF up1] bn
    by blast
  have c2: "(get_network_info hstr0 (Some node_flaky) :: real response py) =
      (Inl (HTTPException 500 ''read timed out''),
       [(Probe, None), (BlockNumber, None), (GasPrice, Some ''read timed out'')])"
    using upstream_exception_gives_500
      [where 'f = real and h = node_flaky and msg = "''read timed out''" and n = 7
        and hstr = hstr0, OF up2] bn2 gp
    by blast
  have c3: "(check_balance hstr0 (Some node_no_balance) \<lparr>address = good_address\<rparr>
        :: real response py) =
      (Inl (HTTPException 500 ''connection reset''),
       [(Probe, None), (GetBalance (address \<lparr>address = good_address\<rparr>),
          Some ''connection reset'')])"
    using upstream_exception_gives_500
      [where 'f = real and h = node_no_balance and msg = "''connection reset''"
        and breq = "\<lparr>address = good_address\<rparr>" and hstr = hstr0, OF up3]
      addr [OF a1(1)] bal
    by blast
  have c4: "(check_balance hstr0 (Some node_no_block) \<lparr>address = good_address\<rparr>
        :: real response py) =
      (Inl (HTTPException 500 ''connection reset''),
       [(Probe, None), (GetBalance (address \<lparr>address = good_address\<rparr>), None),
        (GetBlock Latest, Some ''connection reset'')])"
    using upstream_exception_gives_500
      [where 'f = real and h = node_no_block and msg = "''connection reset''"
        and breq = "\<lparr>address = good_address\<rparr>" and B = 1000000000000000000
        and v = "PyDecimal 1 0" and hstr = hstr0, OF up4]
      addr [OF a1(2)] bal4 blk4 from_wei_one_ether
    by blast
  have c5: "(estimate_gas hstr0 (Some node_no_estimate) (transfer ''1'')
        :: real response py) =
      (Inl (HTTPException 500 ''execution reverted''),
       [(Probe, None),
        (EstimateGas (from_address (transfer ''1'')) (to_address (transfer ''1''))
           1000000000000000000, Some ''execution reverted'')])"
    using upstream_exception_gives_500
      [where 'f = real and h = node_no_estimate and msg = "''execution reverted''"
        and treq = "transfer ''1''" and a = 1000000000000000000 and hstr = hstr0, OF up5]
      addr [OF a1(3)] amt [OF w1(1)] est5
    by blast
  have c6: "(estimate_gas hstr0 (Some node_flaky) (transfer ''1'') :: real response py) =
      (Inl (HTTPException 500 ''read timed out''),
       [(Probe, None),
        (EstimateGas (from_address (transfer ''1'')) (to_address (transfer ''1''))
           1000000000000000000, None),
        (GasPrice, Some ''read timed out'')])"
    using upstream_exception_gives_500
      [where 'f = real and h = node_flaky and msg = "''read timed out''"
        and treq = "transfer ''1''" and a = 1000000000000000000 and g = 21000
        and hstr = hstr0, OF up2]
      addr [OF a1(4)] amt [OF w1(2)] est2 gp
    by blast
  have c7: "get_network_analytics hstr0 exact_div exact_mul (Some node_no_block) =
      (Inl (HTTPException 500 ''connection reset''),
       [(Probe, None), (GetBlock Latest, Some ''connection reset'')])"
    using upstream_exception_gives_500
      [where 'f = real and h = node_no_block and msg = "''connection reset''"
        and hstr = hstr0 and fdiv = exact_div and fmul = exact_mul, OF up4] blk4
    by blast
  have pos: "number ?b > 0"
    by simp
  have c8: "get_network_analytics hstr0 exact_div exact_mul (Some node_no_prev_block) =
      (Inl (HTTPException 500 ''block not found''),
       [(Probe, None), (GetBlock Latest, None),
        (GetBlock (Number (number ?b - 1)), Some ''block not found'')])"
    using upstream_exception_gives_500
      [where 'f = real and h = node_no_prev_block and msg = "''block not found''"
        and b = ?b and hstr = hstr0 and fdiv = exact_div and fmul = exact_mul, OF up6]
      blk6 pos prev6
    by blast
  have e5: "eth_estimate_gas node_no_estimate good_address good_address 1000000000000000000
      = Inl ''execution reverted''"
    by (simp add: node_no_estimate_def)
  have bal': "eth_get_balance node_no_balance good_address = Inl ''connection reset''"
    by (simp add: node_no_balance_def)
  have prev': "eth_get_block node_no_prev_block (Number 6) = Inl ''block not found''"
    by (simp add: node_no_prev_block_def)
  from c1 c2 c3 c4 c5 c6 c7 c8
  show ?thesis
    using up1 up2 up3 up4 up5 up6 bn gp bal' blk4 e5 prev'
    by (simp add: transfer_def)
qed

end
